theory Spec2Isabelle
  imports Complex_Main "HOL-Library.Sublist"
begin

section \<open>The sample image loader of skimage.data\<close>

text \<open>
  The module \<^verbatim>\<open>skimage/data/__init__.py\<close> holds one loader, \<^verbatim>\<open>load\<close>, and one
  zero-argument accessor per bundled image. The functions are embedded with explicit
  state passing: a call takes the interpreter state it reads, and returns the value or
  the exception of the Python call together with the state it leaves.
\<close>

subsection \<open>Values, exceptions and warnings\<close>

datatype dtype = Bool | UInt8 | UInt16 | Float64

text \<open>An image is an \<^verbatim>\<open>ndarray\<close>: its shape, its element type and its samples in row-major order.\<close>

record ndarray =
  shape :: "nat list"
  dtype :: dtype
  samples :: "real list"

datatype category =
  Warning | UserWarning | DeprecationWarning | RuntimeWarning | skimage_deprecation

text \<open>
  A warning is either the notice of a call to a deprecated function (the function and its
  replacement; its category in the library is \<^verbatim>\<open>skimage_deprecation\<close>), or any other
  warning a collaborator issues (its category and message).
\<close>

datatype warning = Deprecation string string | Notice category string

fun category_of :: "warning \<Rightarrow> category" where
  "category_of (Deprecation name alt) = skimage_deprecation"
| "category_of (Notice c m) = c"

fun text_of :: "warning \<Rightarrow> string" where
  "text_of (Deprecation name alt) = name"
| "text_of (Notice c m) = m"

text \<open>
  \<^verbatim>\<open>RuntimeError\<close> is Python's builtin exception, the one the source raises. The kinds
  \<^verbatim>\<open>FileNotFound\<close>, \<^verbatim>\<open>DecodeError\<close> and \<^verbatim>\<open>BackendUnavailable\<close> are those the
  collaborators signal; \<^verbatim>\<open>WarningRaised\<close> is a warning that a filter turned into an
  exception.
\<close>

datatype exc_kind =
  RuntimeError | FileNotFound | DecodeError | BackendUnavailable | WarningRaised category

datatype exception = Exception (kind: exc_kind) (message: string)

type_synonym 'a result = "exception + 'a"

subsection \<open>Interpreter state\<close>

datatype action = Ignore | Error | Always | Default

text \<open>
  The process-wide state a call can read or write: the module global \<^verbatim>\<open>data_dir\<close>, the
  image I/O plugin in use (written by \<^verbatim>\<open>use_plugin\<close>), and the state of the
  \<^verbatim>\<open>warnings\<close> module: its filter list, the registry of warnings already shown once under
  the default action, and the warnings shown so far. A filter is an action and the
  category it applies to, as \<^verbatim>\<open>warnings.simplefilter\<close> installs them. The actions
  \<^verbatim>\<open>module\<close> and \<^verbatim>\<open>once\<close> are not modelled.
\<close>

record state =
  data_dir :: string
  plugin :: string
  filters :: "(action \<times> category) list"
  registry :: "warning list"
  shown :: "warning list"

text \<open>
  The first filter whose category is the warning's, or the root category \<open>Warning\<close>,
  decides; with no match the action is the default one.
\<close>

fun action_for :: "(action \<times> category) list \<Rightarrow> category \<Rightarrow> action" where
  "action_for [] c = Default"
| "action_for ((a, fc) # fs) c = (if fc = Warning \<or> fc = c then a else action_for fs c)"

text \<open>
  \<^verbatim>\<open>warnings.warn\<close>: a warning found in the registry is dropped at once. Otherwise the
  filters decide: it is dropped, raised as an exception, shown, or (the default action)
  shown and entered in the registry, so that it is shown once only.
\<close>

definition warn :: "warning \<Rightarrow> state \<Rightarrow> unit result \<times> state" where
  "warn w s =
     (if w \<in> set (registry s) then (Inr (), s)
      else case action_for (filters s) (category_of w) of
        Ignore \<Rightarrow> (Inr (), s)
      | Error \<Rightarrow> (Inl (Exception (WarningRaised (category_of w)) (text_of w)), s)
      | Always \<Rightarrow> (Inr (), s\<lparr>shown := shown s @ [w]\<rparr>)
      | Default \<Rightarrow> (Inr (), s\<lparr>registry := w # registry s, shown := shown s @ [w]\<rparr>))"

fun warn_all :: "warning list \<Rightarrow> state \<Rightarrow> unit result \<times> state" where
  "warn_all [] s = (Inr (), s)"
| "warn_all (w # ws) s =
     (case warn w s of
        (Inl e, s') \<Rightarrow> (Inl e, s')
      | (Inr u, s') \<Rightarrow> warn_all ws s')"

subsection \<open>Collaborators\<close>

text \<open>
  The functions \<^verbatim>\<open>use_plugin\<close> and \<^verbatim>\<open>imread\<close> of \<^verbatim>\<open>skimage.io\<close>,
  \<^verbatim>\<open>img_as_bool\<close> of \<^verbatim>\<open>skimage\<close> and the decorator \<^verbatim>\<open>deprecated\<close> of
  \<^verbatim>\<open>skimage._shared.utils\<close> are imported by the module and are not part of it.
  They are parameters of the embedding: whether a plugin can be brought up, what the
  plugin in use decodes from a path (on the file system as it stands), what the
  boolean conversion makes of an array, and what the decorator does to the state before
  it runs the decorated function. A collaborator may issue warnings before it returns or
  raises.
\<close>

record env =
  plugin_fault :: "string \<Rightarrow> exception option"
  decode :: "string \<Rightarrow> string \<Rightarrow> bool \<Rightarrow> warning list \<times> ndarray result"
  to_bool :: "ndarray \<Rightarrow> warning list \<times> ndarray result"
  on_deprecated :: "string \<Rightarrow> string \<Rightarrow> state \<Rightarrow> state"

text \<open>
  A call to a collaborator: its warnings go through the filters in order, the first one
  raised as an exception ends the call, otherwise the collaborator's own outcome stands.
\<close>

definition call_out :: "warning list \<times> 'a result \<Rightarrow> state \<Rightarrow> 'a result \<times> state" where
  "call_out wr s =
     (case warn_all (fst wr) s of
        (Inl e, s') \<Rightarrow> (Inl e, s')
      | (Inr u, s') \<Rightarrow> (snd wr, s'))"

text \<open>
  Modelled from the spec: \<^verbatim>\<open>use_plugin\<close> (skimage.io) is not in the sources. It selects
  the named decoding backend, or fails when the backend cannot be initialised.
\<close>

definition use_plugin :: "env \<Rightarrow> string \<Rightarrow> state \<Rightarrow> unit result \<times> state" where
  "use_plugin env name s =
     (case plugin_fault env name of
        Some e \<Rightarrow> (Inl e, s)
      | None \<Rightarrow> (Inr (), s\<lparr>plugin := name\<rparr>))"

text \<open>
  Modelled from the spec: \<^verbatim>\<open>imread\<close> (skimage.io) is not in the sources. It hands the
  path and the flag to the decode of the backend in use and returns its image or its
  failure.
\<close>

definition imread :: "env \<Rightarrow> string \<Rightarrow> bool \<Rightarrow> state \<Rightarrow> ndarray result \<times> state" where
  "imread env path as_grey s = call_out (decode env (plugin s) path as_grey) s"

text \<open>
  Modelled from the spec: \<^verbatim>\<open>img_as_bool\<close> (skimage) is not in the sources. It is the
  boolean conversion of an image, an external collaborator.
\<close>

definition img_as_bool :: "env \<Rightarrow> ndarray \<Rightarrow> state \<Rightarrow> ndarray result \<times> state" where
  "img_as_bool env img s = call_out (to_bool env img) s"

subsection \<open>Path resolution\<close>

text \<open>
  \<^verbatim>\<open>os.path.join\<close> with two arguments, as \<^verbatim>\<open>posixpath\<close> defines it: a second part
  that starts with the separator replaces the first; otherwise the parts are
  concatenated, with a separator between them unless the first part is empty or ends
  with one.
\<close>

definition path_join :: "string \<Rightarrow> string \<Rightarrow> string" where
  "path_join a b =
     (if b \<noteq> [] \<and> hd b = CHR ''/'' then b
      else if a = [] \<or> last a = CHR ''/'' then a @ b
      else a @ ''/'' @ b)"

subsection \<open>The loader\<close>

text \<open>
  \<^verbatim>\<open>
  def load(f, as_grey=False):
      use_plugin('pil')
      return imread(_os.path.join(data_dir, f), as_grey=as_grey)
  \<close>
\<close>

definition load :: "env \<Rightarrow> string \<Rightarrow> bool \<Rightarrow> state \<Rightarrow> ndarray result \<times> state" where
  "load env f as_grey s =
     (case use_plugin env ''pil'' s of
        (Inl e, s1) \<Rightarrow> (Inl e, s1)
      | (Inr u, s1) \<Rightarrow> imread env (path_join (data_dir s1) f) as_grey s1)"

subsection \<open>The accessors\<close>

definition camera :: "env \<Rightarrow> state \<Rightarrow> ndarray result \<times> state" where
  "camera env s = load env ''camera.png'' False s"

text \<open>
  The decorator \<^verbatim>\<open>deprecated\<close> is not in the sources, and the specification does not
  describe it. A call to a decorated function is taken to run the decorator's own action
  first, the parameter \<open>on_deprecated\<close> given the replacement and the function's name,
  which may change the state in any way, and then the function.
\<close>

definition deprecated ::
  "env \<Rightarrow> string \<Rightarrow> string \<Rightarrow> (state \<Rightarrow> 'a result \<times> state) \<Rightarrow> state \<Rightarrow> 'a result \<times> state" where
  "deprecated env alt_func name func s = func (on_deprecated env alt_func name s)"

text \<open>
  \<^verbatim>\<open>
  @deprecated('skimage.data.astronaut')
  def lena():
      raise RuntimeError("This image has been removed due to copyright concerns.")
  \<close>
\<close>

definition lena_body :: "state \<Rightarrow> ndarray result \<times> state" where
  "lena_body s =
     (Inl (Exception RuntimeError ''This image has been removed due to copyright concerns.''), s)"

definition lena :: "env \<Rightarrow> state \<Rightarrow> ndarray result \<times> state" where
  "lena env = deprecated env ''skimage.data.astronaut'' ''lena'' lena_body"

definition astronaut :: "env \<Rightarrow> state \<Rightarrow> ndarray result \<times> state" where
  "astronaut env s = load env ''astronaut.png'' False s"

definition text_img :: "env \<Rightarrow> state \<Rightarrow> ndarray result \<times> state" where
  "text_img env s = load env ''text.png'' False s"

definition checkerboard :: "env \<Rightarrow> state \<Rightarrow> ndarray result \<times> state" where
  "checkerboard env s = load env ''chessboard_GRAY.png'' False s"

definition coins :: "env \<Rightarrow> state \<Rightarrow> ndarray result \<times> state" where
  "coins env s = load env ''coins.png'' False s"

definition moon :: "env \<Rightarrow> state \<Rightarrow> ndarray result \<times> state" where
  "moon env s = load env ''moon.png'' False s"

definition page :: "env \<Rightarrow> state \<Rightarrow> ndarray result \<times> state" where
  "page env s = load env ''page.png'' False s"

text \<open>
  \<^verbatim>\<open>
  def horse():
      with warnings.catch_warnings():
          warnings.simplefilter("ignore")
          return img_as_bool(load("horse.png", as_grey=True))
  \<close>
  \<^verbatim>\<open>catch_warnings\<close> saves the filter list on entry and puts it back on exit, whether
  the block returns or raises; \<^verbatim>\<open>simplefilter("ignore")\<close> puts a filter for every
  category at the front of the list.
\<close>

definition horse :: "env \<Rightarrow> state \<Rightarrow> ndarray result \<times> state" where
  "horse env s =
     (let saved = filters s;
          s1 = s\<lparr>filters := (Ignore, Warning) # filters s\<rparr>;
          (r, s2) = (case load env ''horse.png'' True s1 of
                       (Inl e, s') \<Rightarrow> (Inl e, s')
                     | (Inr img, s') \<Rightarrow> img_as_bool env img s')
      in (r, s2\<lparr>filters := saved\<rparr>))"

definition clock :: "env \<Rightarrow> state \<Rightarrow> ndarray result \<times> state" where
  "clock env s = load env ''clock_motion.png'' False s"

definition immunohistochemistry :: "env \<Rightarrow> state \<Rightarrow> ndarray result \<times> state" where
  "immunohistochemistry env s = load env ''ihc.png'' False s"

definition chelsea :: "env \<Rightarrow> state \<Rightarrow> ndarray result \<times> state" where
  "chelsea env s = load env ''chelsea.png'' False s"

definition coffee :: "env \<Rightarrow> state \<Rightarrow> ndarray result \<times> state" where
  "coffee env s = load env ''coffee.png'' False s"

definition hubble_deep_field :: "env \<Rightarrow> state \<Rightarrow> ndarray result \<times> state" where
  "hubble_deep_field env s = load env ''hubble_deep_field.jpg'' False s"

definition rocket :: "env \<Rightarrow> state \<Rightarrow> ndarray result \<times> state" where
  "rocket env s = load env ''rocket.jpg'' False s"

subsection \<open>Calls and call sequences\<close>

text \<open>The zero-argument accessors of the module, by name.\<close>

datatype accessor =
  Camera | Lena | Astronaut | Text | Checkerboard | Coins | Moon | Page | Horse | Clock
  | Immunohistochemistry | Chelsea | Coffee | Hubble_deep_field | Rocket

fun access :: "env \<Rightarrow> accessor \<Rightarrow> state \<Rightarrow> ndarray result \<times> state" where
  "access env Camera s = camera env s"
| "access env Lena s = lena env s"
| "access env Astronaut s = astronaut env s"
| "access env Text s = text_img env s"
| "access env Checkerboard s = checkerboard env s"
| "access env Coins s = coins env s"
| "access env Moon s = moon env s"
| "access env Page s = page env s"
| "access env Horse s = horse env s"
| "access env Clock s = clock env s"
| "access env Immunohistochemistry s = immunohistochemistry env s"
| "access env Chelsea s = chelsea env s"
| "access env Coffee s = coffee env s"
| "access env Hubble_deep_field s = hubble_deep_field env s"
| "access env Rocket s = rocket env s"

text \<open>The public functions of the module (\<^verbatim>\<open>__all__\<close>), as calls a client can make.\<close>

datatype call = Load string bool | Access accessor

fun exec :: "env \<Rightarrow> call \<Rightarrow> state \<Rightarrow> ndarray result \<times> state" where
  "exec env (Load f as_grey) s = load env f as_grey s"
| "exec env (Access a) s = access env a s"

text \<open>The state after a sequence of calls, each outcome discarded.\<close>

fun run :: "env \<Rightarrow> call list \<Rightarrow> state \<Rightarrow> state" where
  "run env [] s = s"
| "run env (c # cs) s = run env cs (snd (exec env c s))"

text \<open>The file an accessor reads; \<open>lena\<close> reads none.\<close>

fun filename :: "accessor \<Rightarrow> string option" where
  "filename Camera = Some ''camera.png''"
| "filename Lena = None"
| "filename Astronaut = Some ''astronaut.png''"
| "filename Text = Some ''text.png''"
| "filename Checkerboard = Some ''chessboard_GRAY.png''"
| "filename Coins = Some ''coins.png''"
| "filename Moon = Some ''moon.png''"
| "filename Page = Some ''page.png''"
| "filename Horse = Some ''horse.png''"
| "filename Clock = Some ''clock_motion.png''"
| "filename Immunohistochemistry = Some ''ihc.png''"
| "filename Chelsea = Some ''chelsea.png''"
| "filename Coffee = Some ''coffee.png''"
| "filename Hubble_deep_field = Some ''hubble_deep_field.jpg''"
| "filename Rocket = Some ''rocket.jpg''"

subsection \<open>Image geometry and the environment an accessor needs\<close>

definition height :: "ndarray \<Rightarrow> nat" where
  "height img = (case shape img of [] \<Rightarrow> 0 | h # r \<Rightarrow> h)"

definition width :: "ndarray \<Rightarrow> nat" where
  "width img = (case shape img of h # w # r \<Rightarrow> w | _ \<Rightarrow> 0)"

text \<open>No filter of the list turns a warning into an exception.\<close>

fun lenient :: "(action \<times> category) list \<Rightarrow> bool" where
  "lenient [] = True"
| "lenient ((a, fc) # fs) = (a \<noteq> Error \<and> lenient fs)"

subsection \<open>Locations named by paths\<close>

text \<open>
  POSIX path resolution: a path is absolute when it starts with the separator, and it is
  resolved component by component, empty components (from repeated or trailing
  separators) counting for nothing. Two paths with the same components, both absolute or
  both relative, name the same location.
\<close>

definition is_absolute :: "string \<Rightarrow> bool" where
  "is_absolute p = (p \<noteq> [] \<and> hd p = CHR ''/'')"

fun split_sep :: "string \<Rightarrow> string list" where
  "split_sep [] = [[]]"
| "split_sep (c # cs) =
     (if c = CHR ''/'' then [] # split_sep cs
      else (case split_sep cs of
              [] \<Rightarrow> [[c]]
            | x # xs \<Rightarrow> (c # x) # xs))"

definition components :: "string \<Rightarrow> string list" where
  "components p = filter (\<lambda>c. c \<noteq> []) (split_sep p)"

definition same_location :: "string \<Rightarrow> string \<Rightarrow> bool" where
  "same_location p q = (is_absolute p = is_absolute q \<and> components p = components q)"

subsection \<open>States that differ by warnings recorded since\<close>

text \<open>
  \<open>later s t\<close>: the filters of \<open>t\<close> are those of \<open>s\<close>, and the registry of \<open>t\<close> is that of
  \<open>s\<close> with, possibly, more warnings whose action under these filters is the default
  one.
\<close>

definition later :: "state \<Rightarrow> state \<Rightarrow> bool" where
  "later s t =
     (filters t = filters s
      \<and> list_all (\<lambda>w. w \<in> set (registry t)) (registry s)
      \<and> list_all (\<lambda>w. w \<in> set (registry s)
                        \<or> action_for (filters s) (category_of w) = Default) (registry t))"

subsection \<open>The collaborators as the specification describes them\<close>

text \<open>The samples of an array in groups of \<open>c\<close>: one group per pixel of a \<open>c\<close>-channel image.\<close>

function chunks :: "nat \<Rightarrow> 'a list \<Rightarrow> 'a list list" where
  "chunks c xs = (if c = 0 \<or> xs = [] then [] else take c xs # chunks c (drop c xs))"
  by pat_completeness auto
termination
  by (relation "measure (\<lambda>(c, xs). length xs)") auto

declare chunks.simps [simp del]

text \<open>
  Modelled from the spec: the grayscale conversion of the decoding backend is not in the
  sources. A colour image has shape \<open>[H, W, C]\<close>, a grayscale one \<open>[H, W]\<close>; with the
  flag set the backend collapses the colour channels, here by a mixing function \<open>mix\<close> of
  the channels of one pixel. An image that has no channel axis is left as it is.
\<close>

definition collapse :: "(real list \<Rightarrow> real) \<Rightarrow> ndarray \<Rightarrow> ndarray" where
  "collapse mix img =
     (case shape img of
        [h, w, c] \<Rightarrow> img\<lparr>shape := [h, w], samples := map mix (chunks c (samples img))\<rparr>
      | _ \<Rightarrow> img)"

text \<open>
  Modelled from the spec: the decode of the backend is not in the sources. \<open>stored path\<close>
  is what the file at the path holds, decoded with all its channels, or the failure
  (\<^verbatim>\<open>FileNotFound\<close>, \<^verbatim>\<open>DecodeError\<close>) the backend signals for it; the flag collapses
  the colour channels of the decoded image.
\<close>

definition spec_decode ::
  "(string \<Rightarrow> ndarray result) \<Rightarrow> (real list \<Rightarrow> real) \<Rightarrow>
   string \<Rightarrow> string \<Rightarrow> bool \<Rightarrow> warning list \<times> ndarray result" where
  "spec_decode stored mix plug path as_grey =
     ([], case stored path of
            Inl e \<Rightarrow> Inl e
          | Inr img \<Rightarrow> Inr (if as_grey then collapse mix img else img))"

text \<open>
  Modelled from the spec: the boolean conversion is not in the sources. It maps an image
  to one of boolean pixel type by thresholding each sample at a midpoint that depends on
  the element type of the decoded image; it may warn about the conversion (\<open>notes\<close>).
  A boolean sample is stored as 0 or 1.
\<close>

definition spec_to_bool ::
  "(dtype \<Rightarrow> real) \<Rightarrow> (ndarray \<Rightarrow> warning list) \<Rightarrow> ndarray \<Rightarrow> warning list \<times> ndarray result" where
  "spec_to_bool midpoint notes img =
     (notes img,
      Inr (img\<lparr>dtype := Bool,
               samples := map (\<lambda>v. if midpoint (dtype img) < v then 1 else 0) (samples img)\<rparr>))"

subsection \<open>Example environments\<close>

definition demo_colour :: ndarray where
  "demo_colour = \<lparr>shape = [1, 2, 3], dtype = UInt8, samples = [10, 20, 30, 200, 210, 220]\<rparr>"

definition demo_grey :: ndarray where
  "demo_grey = \<lparr>shape = [1, 2], dtype = UInt8, samples = [20, 210]\<rparr>"

text \<open>
  The decorator as the library's behaves: every call puts an always-show filter for its
  category at the front of the filter list, leaves it there, and shows the deprecation
  warning.
\<close>

definition library_decorator :: "string \<Rightarrow> string \<Rightarrow> state \<Rightarrow> state" where
  "library_decorator alt_func name s =
     s\<lparr>filters := (Always, skimage_deprecation) # filters s,
       shown := shown s @ [Deprecation name alt_func]\<rparr>"

text \<open>
  A data directory \<^verbatim>\<open>/data\<close> that holds \<^verbatim>\<open>camera.png\<close> and \<^verbatim>\<open>horse.png\<close>, a backend
  \<^verbatim>\<open>pil\<close> that warns on every decode, and a boolean conversion that warns as well.
\<close>

definition demo_env :: env where
  "demo_env =
     \<lparr>plugin_fault = (\<lambda>name. if name = ''pil'' then None
                               else Some (Exception BackendUnavailable name)),
      decode = (\<lambda>plug path as_grey.
                  if plug = ''pil'' \<and> (path = ''/data/camera.png'' \<or> path = ''/data/horse.png'')
                  then ([Notice UserWarning ''slow decoder''],
                        Inr (if as_grey then demo_grey else demo_colour))
                  else ([], Inl (Exception FileNotFound path))),
      to_bool = (\<lambda>img. ([Notice UserWarning ''precision loss''],
                         Inr (img\<lparr>dtype := Bool,
                                  samples := map (\<lambda>v. if 127 < v then 1 else 0) (samples img)\<rparr>))),
      on_deprecated = library_decorator\<rparr>"

definition demo_state :: state where
  "demo_state =
     \<lparr>data_dir = ''/data'', plugin = ''matplotlib'',
      filters = [(Always, DeprecationWarning)], registry = [], shown = []\<rparr>"




text \<open>The collaborators as the specification describes them, over the same directory.\<close>

definition spec_env :: env where
  "spec_env =
     \<lparr>plugin_fault = (\<lambda>name. None),
      decode = spec_decode
                 (\<lambda>path. if path = ''/data/horse.png'' then Inr demo_colour
                          else Inl (Exception FileNotFound path))
                 (\<lambda>channels. sum_list channels / 3),
      to_bool = spec_to_bool (\<lambda>d. 127) (\<lambda>img. [Notice UserWarning ''precision loss'']),
      on_deprecated = library_decorator\<rparr>"

text \<open>The same, with a \<^verbatim>\<open>horse.png\<close> that is dark all over.\<close>

definition dark_env :: env where
  "dark_env =
     spec_env\<lparr>decode := spec_decode
                           (\<lambda>path. Inr \<lparr>shape = [1, 2], dtype = UInt8, samples = [0, 10]\<rparr>)
                           (\<lambda>channels. sum_list channels / 3)\<rparr>"

section \<open>Properties\<close>

subsection \<open>Warnings and collaborator calls\<close>





lemma warn_frame:
  "data_dir (snd (warn w s)) = data_dir s \<and> plugin (snd (warn w s)) = plugin s
   \<and> filters (snd (warn w s)) = filters s \<and> prefix (shown s) (shown (snd (warn w s)))
   \<and> later s (snd (warn w s))"
  by (auto simp: warn_def later_def list_all_iff split: action.splits)






lemma call_out_returns:
  "fst (call_out wr s) = Inr x \<Longrightarrow> snd wr = Inr x"
proof -
  assume a: "fst (call_out wr s) = Inr x"
  obtain r s' where w: "warn_all (fst wr) s = (r, s')" by (cases "warn_all (fst wr) s")
  show ?thesis using a w by (cases r) (simp_all add: call_out_def)
qed

lemma lenient_action: "lenient fs \<Longrightarrow> action_for fs c \<noteq> Error"
  by (induction fs c rule: action_for.induct) auto

lemma warn_lenient: "lenient (filters s) \<Longrightarrow> fst (warn w s) = Inr ()"
  using lenient_action [of "filters s" "category_of w"]
  by (simp add: warn_def split: action.splits)

lemma warn_all_lenient: "lenient (filters s) \<Longrightarrow> fst (warn_all ws s) = Inr ()"
proof (induction ws arbitrary: s)
  case Nil
  show ?case by simp
next
  case (Cons w ws)
  obtain r s' where w: "warn w s = (r, s')" by (cases "warn w s")
  have r: "r = Inr ()" using warn_lenient [OF Cons.prems, of w] w by simp
  have "filters s' = filters s" using warn_frame [of w s] w by simp
  then have "fst (warn_all ws s') = Inr ()" using Cons.IH [of s'] Cons.prems by simp
  then show ?case using w r by simp
qed

lemma call_out_lenient: "lenient (filters s) \<Longrightarrow> fst (call_out wr s) = snd wr"
proof -
  assume l: "lenient (filters s)"
  obtain r s' where w: "warn_all (fst wr) s = (r, s')" by (cases "warn_all (fst wr) s")
  have "r = Inr ()" using warn_all_lenient [OF l, of "fst wr"] w by simp
  then show ?thesis using w by (simp add: call_out_def)
qed

lemma warn_all_ignored:
  "filters s = (Ignore, Warning) # fs \<Longrightarrow> warn_all ws s = (Inr (), s)"
  by (induction ws) (simp_all add: warn_def)

lemma call_out_ignored:
  "filters s = (Ignore, Warning) # fs \<Longrightarrow> call_out wr s = (snd wr, s)"
  by (simp add: call_out_def warn_all_ignored)

subsection \<open>The loader\<close>

lemma load_unfold:
  "load env f as_grey s =
     (case plugin_fault env ''pil'' of
        Some e \<Rightarrow> (Inl e, s)
      | None \<Rightarrow> call_out (decode env ''pil'' (path_join (data_dir s) f) as_grey)
                  (s\<lparr>plugin := ''pil''\<rparr>))"
  by (simp add: load_def use_plugin_def imread_def split: option.splits)



lemma path_join_absolute: "path_join d (CHR ''/'' # r) = CHR ''/'' # r"
  by (simp add: path_join_def)

lemma path_join_empty:
  "path_join d [] = (if d = [] \<or> last d = CHR ''/'' then d else d @ ''/'')"
  by (simp add: path_join_def)

lemma split_sep_nonempty: "split_sep p \<noteq> []"
  by (induction p) (simp_all split: list.splits)

lemma split_sep_snoc: "split_sep (p @ ''/'') = split_sep p @ [[]]"
proof (induction p)
  case Nil
  show ?case by simp
next
  case (Cons c p)
  obtain x xs where x: "split_sep p = x # xs"
    using split_sep_nonempty [of p] by (cases "split_sep p") simp_all
  show ?case using Cons.IH x by simp
qed

lemma components_snoc: "components (p @ ''/'') = components p"
  by (simp add: components_def split_sep_snoc)

lemma same_location_join_empty: "same_location (path_join d []) d"
proof (cases "d = [] \<or> last d = CHR ''/''")
  case True
  then show ?thesis by (simp add: path_join_empty same_location_def)
next
  case False
  then have "is_absolute (d @ ''/'') = is_absolute d" by (cases d) (simp_all add: is_absolute_def)
  then show ?thesis using False by (simp add: path_join_empty same_location_def components_snoc)
qed

subsection \<open>The accessors\<close>

lemma lena_outcome:
  "fst (lena env s) =
     Inl (Exception RuntimeError ''This image has been removed due to copyright concerns.'')"
  by (simp add: lena_def deprecated_def lena_body_def)

lemma horse_unfold:
  "horse env s =
     (case plugin_fault env ''pil'' of
        Some e \<Rightarrow> (Inl e, s)
      | None \<Rightarrow>
          (case snd (decode env ''pil'' (path_join (data_dir s) ''horse.png'') True) of
             Inl e \<Rightarrow> (Inl e, s\<lparr>plugin := ''pil''\<rparr>)
           | Inr img \<Rightarrow> (snd (to_bool env img), s\<lparr>plugin := ''pil''\<rparr>)))"
  by (simp add: horse_def Let_def load_unfold img_as_bool_def
      call_out_ignored [where fs = "filters s"] split: option.splits sum.splits)

lemma access_plain:
  "a \<noteq> Horse \<Longrightarrow> filename a = Some f \<Longrightarrow> access env a s = load env f False s"
  by (cases a)
    (simp_all add: camera_def astronaut_def text_img_def checkerboard_def coins_def moon_def
      page_def clock_def immunohistochemistry_def chelsea_def coffee_def
      hubble_deep_field_def rocket_def)

lemma horse_frame:
  "data_dir (snd (horse env s)) = data_dir s \<and> filters (snd (horse env s)) = filters s
   \<and> (plugin (snd (horse env s)) = plugin s \<or> plugin (snd (horse env s)) = ''pil'')
   \<and> shown (snd (horse env s)) = shown s \<and> registry (snd (horse env s)) = registry s"
  by (simp add: horse_unfold split: option.splits sum.splits)







lemma demo_camera_path: "path_join (data_dir demo_state) ''camera.png'' = ''/data/camera.png''"
  by (simp add: demo_state_def path_join_def)

lemma demo_horse_path: "path_join (data_dir demo_state) ''horse.png'' = ''/data/horse.png''"
  by (simp add: demo_state_def path_join_def)

lemma demo_decode_camera:
  "decode demo_env ''pil'' ''/data/camera.png'' False
     = ([Notice UserWarning ''slow decoder''], Inr demo_colour)"
  by (simp add: demo_env_def)

lemma demo_decode_horse:
  "decode demo_env ''pil'' ''/data/horse.png'' True
     = ([Notice UserWarning ''slow decoder''], Inr demo_grey)"
  by (simp add: demo_env_def)

lemma demo_fault: "plugin_fault demo_env ''pil'' = None"
  by (simp add: demo_env_def)


lemma demo_load_camera: "fst (load demo_env ''camera.png'' False demo_state) = Inr demo_colour"
  unfolding load_unfold demo_camera_path demo_decode_camera demo_fault
  by (simp add: demo_state_def call_out_def warn_def)

lemma demo_horse:
  "fst (horse demo_env demo_state) = Inr \<lparr>shape = [1, 2], dtype = Bool, samples = [0, 1]\<rparr>"
  unfolding horse_unfold demo_horse_path demo_decode_horse demo_fault
  by (simp add: demo_env_def demo_grey_def)






subsection \<open>The collaborators of the specification\<close>

lemma length_chunks:
  "0 < c \<Longrightarrow> length xs = n * c \<Longrightarrow> length (chunks c xs) = n"
proof (induction n arbitrary: xs)
  case 0
  then show ?case by (subst chunks.simps) simp
next
  case (Suc n)
  then have ne: "xs \<noteq> []" by auto
  have "length (drop c xs) = n * c" using Suc.prems by simp
  then have "length (chunks c (drop c xs)) = n" using Suc.IH Suc.prems(1) by blast
  then show ?case using ne Suc.prems(1)
    by (subst chunks.simps) simp
qed

lemma collapse_geometry:
  "dtype (collapse mix img) = dtype img
   \<and> height (collapse mix img) = height img
   \<and> width (collapse mix img) = width img
   \<and> (length (shape img) = 3 \<longrightarrow> shape (collapse mix img) = butlast (shape img))
   \<and> (length (shape img) \<noteq> 3 \<longrightarrow> collapse mix img = img)"
  by (auto simp: collapse_def height_def width_def split: list.splits)

lemma collapse_samples:
  "shape img = [h, w, c] \<Longrightarrow> 0 < c \<Longrightarrow> length (samples img) = h * w * c \<Longrightarrow>
   length (samples (collapse mix img)) = h * w"
  by (simp add: collapse_def length_chunks)

lemma collapse_demo: "collapse (\<lambda>channels. sum_list channels / 3) demo_colour = demo_grey"
  by (simp add: collapse_def demo_colour_def demo_grey_def chunks.simps)

lemma threshold_values: "set (map (\<lambda>v. if (m::real) < v then 1 else 0) xs) \<subseteq> {0, 1::real}"
  by auto

lemma card_boolean: "set xs \<subseteq> {0, 1::real} \<Longrightarrow> card (set xs) \<le> 2"
proof -
  assume "set xs \<subseteq> {0, 1::real}"
  then have "card (set xs) \<le> card {0, 1::real}" by (intro card_mono) simp_all
  then show ?thesis by simp
qed

lemma spec_horse:
  "fst (horse spec_env demo_state) = Inr \<lparr>shape = [1, 2], dtype = Bool, samples = [0, 1]\<rparr>"
  unfolding horse_unfold demo_horse_path
  by (simp add: spec_env_def spec_decode_def spec_to_bool_def collapse_demo demo_grey_def)

subsection \<open>The removed image\<close>

text \<open>
  C1: whatever the file system holds (any collaborators \<open>env\<close>, also one that decodes a
  file at every path), whatever calls came before (any sequence \<open>cs\<close> of loader and
  accessor calls, \<open>lena\<close> included) and from whatever state, a call to \<open>lena\<close> fails with
  the error that says the image was removed, and returns no image.
\<close>

theorem lena_always_removed:
  "fst (exec env (Access Lena) (run env cs s)) =
     Inl (Exception RuntimeError ''This image has been removed due to copyright concerns.'')
   \<and> (\<nexists>img. fst (exec env (Access Lena) (run env cs s)) = Inr img)"
  by (simp add: lena_outcome)

subsection \<open>The catalog\<close>

text \<open>
  C2: each accessor without special handling is \<open>load\<close> applied to its fixed file name,
  with the grayscale flag at its default, \<open>False\<close>.
\<close>

theorem plain_accessors_load_catalog_files:
  "access env Camera s = load env ''camera.png'' False s
   \<and> access env Astronaut s = load env ''astronaut.png'' False s
   \<and> access env Text s = load env ''text.png'' False s
   \<and> access env Checkerboard s = load env ''chessboard_GRAY.png'' False s
   \<and> access env Coins s = load env ''coins.png'' False s
   \<and> access env Moon s = load env ''moon.png'' False s
   \<and> access env Page s = load env ''page.png'' False s
   \<and> access env Clock s = load env ''clock_motion.png'' False s
   \<and> access env Immunohistochemistry s = load env ''ihc.png'' False s
   \<and> access env Chelsea s = load env ''chelsea.png'' False s
   \<and> access env Coffee s = load env ''coffee.png'' False s
   \<and> access env Hubble_deep_field s = load env ''hubble_deep_field.jpg'' False s
   \<and> access env Rocket s = load env ''rocket.jpg'' False s"
  by (simp add: camera_def astronaut_def text_img_def checkerboard_def coins_def moon_def
      page_def clock_def immunohistochemistry_def chelsea_def coffee_def
      hubble_deep_field_def rocket_def)

subsection \<open>What the loader does\<close>

text \<open>
  C5: for every file name \<open>f\<close> and flag \<open>g\<close>, \<open>load\<close> selects the backend \<^verbatim>\<open>pil\<close>; when that
  fails the failure is the outcome; otherwise the outcome is that of the backend's decode
  at the data directory joined with \<open>f\<close>, with flag \<open>g\<close>. An image that \<open>load\<close> returns is
  the very image the decode produced.
\<close>

theorem load_decodes_resolved_path:
  "load env f g s =
     (case plugin_fault env ''pil'' of
        Some e \<Rightarrow> (Inl e, s)
      | None \<Rightarrow> call_out (decode env ''pil'' (path_join (data_dir s) f) g)
                  (s\<lparr>plugin := ''pil''\<rparr>))
   \<and> (fst (load env f g s) = Inr img \<longrightarrow>
        plugin_fault env ''pil'' = None
        \<and> snd (decode env ''pil'' (path_join (data_dir s) f) g) = Inr img)"
proof -
  have "plugin_fault env ''pil'' = None
        \<and> snd (decode env ''pil'' (path_join (data_dir s) f) g) = Inr img"
    if r: "fst (load env f g s) = Inr img"
  proof (cases "plugin_fault env ''pil''")
    case None
    then have "fst (call_out (decode env ''pil'' (path_join (data_dir s) f) g)
                 (s\<lparr>plugin := ''pil''\<rparr>)) = Inr img"
      using r by (simp add: load_unfold)
    then have "snd (decode env ''pil'' (path_join (data_dir s) f) g) = Inr img"
      by (rule call_out_returns)
    then show ?thesis using None by simp
  next
    case (Some e)
    then show ?thesis using r by (simp add: load_unfold)
  qed
  then show ?thesis using load_unfold [of env f g s] by blast
qed

theorem load_decodes_resolved_path_witness:
  "fst (load demo_env ''camera.png'' False demo_state) = Inr demo_colour
   \<and> snd (decode demo_env ''pil'' ''/data/camera.png'' False) = Inr demo_colour"
  using load_decodes_resolved_path [of demo_env "''camera.png''" False demo_state demo_colour]
    demo_load_camera demo_camera_path by simp

text \<open>
  C10: \<open>load\<close> checks nothing about the file name: for every name its outcome is the
  backend failure or that of the decode at the joined path. For an absolute name the
  joined path is the name itself, whatever the data directory, so \<open>load\<close> decodes the
  file at that path, outside the data directory, and returns what the decode returns. For
  the empty name the joined path names the data directory itself: it is the data
  directory's path, followed by a separator unless that path is empty or ends with one.
\<close>

theorem load_does_not_validate_filename:
  "load env f g s =
     (case plugin_fault env ''pil'' of
        Some e \<Rightarrow> (Inl e, s)
      | None \<Rightarrow> call_out (decode env ''pil'' (path_join (data_dir s) f) g)
                  (s\<lparr>plugin := ''pil''\<rparr>))
   \<and> (is_absolute f \<longrightarrow> path_join d f = f)
   \<and> (is_absolute f \<longrightarrow>
        load env f g s =
          (case plugin_fault env ''pil'' of
             Some e \<Rightarrow> (Inl e, s)
           | None \<Rightarrow> call_out (decode env ''pil'' f g) (s\<lparr>plugin := ''pil''\<rparr>)))
   \<and> (is_absolute f \<and> plugin_fault env ''pil'' = None \<and> lenient (filters s) \<longrightarrow>
        fst (load env f g s) = snd (decode env ''pil'' f g))
   \<and> same_location (path_join d []) d
   \<and> path_join d [] = (if d = [] \<or> last d = CHR ''/'' then d else d @ ''/'')"
proof -
  have a: "path_join d' f = f" if "is_absolute f" for d'
    using that path_join_absolute by (cases f) (simp_all add: is_absolute_def)
  have b: "load env f g s =
          (case plugin_fault env ''pil'' of
             Some e \<Rightarrow> (Inl e, s)
           | None \<Rightarrow> call_out (decode env ''pil'' f g) (s\<lparr>plugin := ''pil''\<rparr>))"
    if "is_absolute f"
    using a [OF that, of "data_dir s"] by (simp add: load_unfold split: option.splits)
  have c: "fst (load env f g s) = snd (decode env ''pil'' f g)"
    if "is_absolute f" "plugin_fault env ''pil'' = None" "lenient (filters s)"
    using b [OF that(1)] that(2,3) by (simp add: call_out_lenient)
  show ?thesis
    using load_unfold [of env f g s] a [of d] b c same_location_join_empty [of d]
      path_join_empty [of d] by blast
qed

theorem load_does_not_validate_filename_witness:
  "is_absolute ''/data/camera.png''
   \<and> path_join ''/srv/skimage/data'' ''/data/camera.png'' = ''/data/camera.png''
   \<and> fst (load demo_env ''/data/camera.png'' False (demo_state\<lparr>data_dir := ''/srv/skimage/data''\<rparr>))
       = Inr demo_colour
   \<and> same_location (path_join ''/srv/skimage/data'' []) ''/srv/skimage/data''
   \<and> path_join ''/srv/skimage/data'' [] = ''/srv/skimage/data/''"
proof -
  note t = load_does_not_validate_filename [of demo_env "''/data/camera.png''" False
      "demo_state\<lparr>data_dir := ''/srv/skimage/data''\<rparr>" "''/srv/skimage/data''"]
  have i: "is_absolute ''/data/camera.png''" by (simp add: is_absolute_def)
  have l: "lenient (filters (demo_state\<lparr>data_dir := ''/srv/skimage/data''\<rparr>))"
    by (simp add: demo_state_def)
  have 1: "path_join ''/srv/skimage/data'' ''/data/camera.png'' = ''/data/camera.png''"
    using t [THEN conjunct2, THEN conjunct1] i by simp
  have 2: "fst (load demo_env ''/data/camera.png'' False (demo_state\<lparr>data_dir := ''/srv/skimage/data''\<rparr>))
       = Inr demo_colour"
    using t [THEN conjunct2, THEN conjunct2, THEN conjunct2, THEN conjunct1] i l demo_fault
    by (simp add: demo_decode_camera)
  have 3: "same_location (path_join ''/srv/skimage/data'' []) ''/srv/skimage/data''"
    using t [THEN conjunct2, THEN conjunct2, THEN conjunct2, THEN conjunct2, THEN conjunct1] .
  have 4: "path_join ''/srv/skimage/data'' [] = ''/srv/skimage/data/''"
    using t [THEN conjunct2, THEN conjunct2, THEN conjunct2, THEN conjunct2, THEN conjunct2]
    by simp
  show ?thesis using i 1 2 3 4 by blast
qed

subsection \<open>The horse\<close>

text \<open>
  C3: \<open>horse\<close> is \<open>load\<close> of \<^verbatim>\<open>horse.png\<close> with the grayscale flag set, run under a filter
  that ignores every warning, followed by the boolean conversion of the loaded image, the
  filters put back at the end. Its outcome is the backend failure, the decode failure, or
  what the conversion makes of the decoded image; no warning of the decode or of the
  conversion is shown. Every other accessor that reads a file is \<open>load\<close> of that file with
  the flag \<open>False\<close> and nothing after it.
\<close>

theorem horse_is_converted_grey_load:
  "horse env s =
     (case load env ''horse.png'' True (s\<lparr>filters := (Ignore, Warning) # filters s\<rparr>) of
        (Inl e, s') \<Rightarrow> (Inl e, s'\<lparr>filters := filters s\<rparr>)
      | (Inr img, s') \<Rightarrow>
          (fst (img_as_bool env img s'), (snd (img_as_bool env img s'))\<lparr>filters := filters s\<rparr>))
   \<and> fst (horse env s) =
       (case plugin_fault env ''pil'' of
          Some e \<Rightarrow> Inl e
        | None \<Rightarrow>
            (case snd (decode env ''pil'' (path_join (data_dir s) ''horse.png'') True) of
               Inl e \<Rightarrow> Inl e
             | Inr img \<Rightarrow> snd (to_bool env img)))
   \<and> shown (snd (horse env s)) = shown s
   \<and> filters (snd (horse env s)) = filters s
   \<and> (\<forall>a f. a \<noteq> Horse \<longrightarrow> filename a = Some f \<longrightarrow> access env a s = load env f False s)"
proof -
  have 1: "horse env s =
     (case load env ''horse.png'' True (s\<lparr>filters := (Ignore, Warning) # filters s\<rparr>) of
        (Inl e, s') \<Rightarrow> (Inl e, s'\<lparr>filters := filters s\<rparr>)
      | (Inr img, s') \<Rightarrow>
          (fst (img_as_bool env img s'), (snd (img_as_bool env img s'))\<lparr>filters := filters s\<rparr>))"
    by (simp add: horse_def Let_def split: prod.splits sum.splits)
  have 2: "fst (horse env s) =
       (case plugin_fault env ''pil'' of
          Some e \<Rightarrow> Inl e
        | None \<Rightarrow>
            (case snd (decode env ''pil'' (path_join (data_dir s) ''horse.png'') True) of
               Inl e \<Rightarrow> Inl e
             | Inr img \<Rightarrow> snd (to_bool env img)))"
    by (simp add: horse_unfold split: option.splits sum.splits)
  have 3: "\<forall>a f. a \<noteq> Horse \<longrightarrow> filename a = Some f \<longrightarrow> access env a s = load env f False s"
    using access_plain by blast
  show ?thesis using 1 2 3 horse_frame [of env s] by blast
qed

theorem horse_is_converted_grey_load_witness:
  "fst (horse demo_env demo_state) = Inr \<lparr>shape = [1, 2], dtype = Bool, samples = [0, 1]\<rparr>
   \<and> snd (to_bool demo_env demo_grey) = Inr \<lparr>shape = [1, 2], dtype = Bool, samples = [0, 1]\<rparr>
   \<and> shown (snd (horse demo_env demo_state)) = []
   \<and> filters (snd (horse demo_env demo_state)) = [(Always, DeprecationWarning)]
   \<and> access demo_env Camera demo_state = load demo_env ''camera.png'' False demo_state"
proof -
  have h: "Camera \<noteq> Horse" "filename Camera = Some ''camera.png''" by simp_all
  have s: "shown demo_state = []" "filters demo_state = [(Always, DeprecationWarning)]"
    by (simp_all add: demo_state_def)
  have b: "snd (to_bool demo_env demo_grey) = Inr \<lparr>shape = [1, 2], dtype = Bool, samples = [0, 1]\<rparr>"
    by (simp add: demo_env_def demo_grey_def)
  note t = horse_is_converted_grey_load [of demo_env demo_state]
  have sh: "shown (snd (horse demo_env demo_state)) = shown demo_state"
    using t [THEN conjunct2, THEN conjunct2, THEN conjunct1] .
  have fl: "filters (snd (horse demo_env demo_state)) = filters demo_state"
    using t [THEN conjunct2, THEN conjunct2, THEN conjunct2, THEN conjunct1] .
  have ca: "access demo_env Camera demo_state = load demo_env ''camera.png'' False demo_state"
    using t [THEN conjunct2, THEN conjunct2, THEN conjunct2, THEN conjunct2] h by blast
  show ?thesis using demo_horse b sh fl ca s by simp
qed

text \<open>
  C8, as amended: with the boolean conversion as the specification describes it, an image
  that \<open>horse\<close> returns has boolean element type and every sample is one of the two
  boolean values, so at most two distinct values occur. It is the thresholded decode of
  \<^verbatim>\<open>horse.png\<close>; exactly two distinct values occur when the decoded image has a sample
  above the midpoint and one not above it.
\<close>

theorem horse_samples_boolean:
  assumes "to_bool env = spec_to_bool midpoint notes"
    and "fst (horse env s) = Inr b"
  shows "dtype b = Bool
   \<and> set (samples b) \<subseteq> {0, 1}
   \<and> card (set (samples b)) \<le> 2
   \<and> (\<exists>img. snd (decode env ''pil'' (path_join (data_dir s) ''horse.png'') True) = Inr img
          \<and> shape b = shape img
          \<and> samples b = map (\<lambda>v. if midpoint (dtype img) < v then 1 else 0) (samples img)
          \<and> ((\<exists>v \<in> set (samples img). midpoint (dtype img) < v)
               \<and> (\<exists>v \<in> set (samples img). \<not> midpoint (dtype img) < v)
              \<longrightarrow> set (samples b) = {0, 1} \<and> card (set (samples b)) = 2))"
proof -
  from assms obtain img where
    d: "snd (decode env ''pil'' (path_join (data_dir s) ''horse.png'') True) = Inr img"
    and b: "b = img\<lparr>dtype := Bool,
                 samples := map (\<lambda>v. if midpoint (dtype img) < v then 1 else 0) (samples img)\<rparr>"
    by (auto simp: horse_unfold spec_to_bool_def split: option.splits sum.splits)
  have v: "set (samples b) \<subseteq> {0, 1}" using b threshold_values [of "midpoint (dtype img)"] by simp
  have both: "set (samples b) = {0, 1} \<and> card (set (samples b)) = 2"
    if hi: "\<exists>v \<in> set (samples img). midpoint (dtype img) < v"
      and lo: "\<exists>v \<in> set (samples img). \<not> midpoint (dtype img) < v"
  proof -
    have "1 \<in> set (samples b)" using hi b by (auto simp: image_iff)
    moreover have "0 \<in> set (samples b)" using lo b by (auto simp: image_iff)
    ultimately have "set (samples b) = {0, 1}" using v by blast
    then show ?thesis by simp
  qed
  show ?thesis using d b v card_boolean [OF v] both by auto
qed

theorem horse_samples_boolean_witness:
  "fst (horse spec_env demo_state) = Inr \<lparr>shape = [1, 2], dtype = Bool, samples = [0, 1]\<rparr>
   \<and> dtype \<lparr>shape = [1, 2], dtype = Bool, samples = [0, 1]\<rparr> = Bool
   \<and> set (samples \<lparr>shape = [1, 2], dtype = Bool, samples = [0, 1]\<rparr>) \<subseteq> {0, 1}
   \<and> card (set (samples \<lparr>shape = [1, 2], dtype = Bool, samples = [0, 1]\<rparr>)) = 2"
proof -
  have e: "to_bool spec_env =
      spec_to_bool (\<lambda>d. 127) (\<lambda>img. [Notice UserWarning ''precision loss''])"
    by (simp add: spec_env_def)
  note t = horse_samples_boolean [OF e spec_horse]
  have 1: "dtype \<lparr>shape = [1, 2], dtype = Bool, samples = [0, 1]\<rparr> = Bool"
    using t [THEN conjunct1] .
  have 2: "set (samples \<lparr>shape = [1, 2], dtype = Bool, samples = [0, 1]\<rparr>) \<subseteq> {0, 1}"
    using t [THEN conjunct2, THEN conjunct1] .
  show ?thesis using spec_horse 1 2 by simp
qed

text \<open>
  C8 as stated fails: a \<^verbatim>\<open>horse.png\<close> that is dark all over gives a successful call whose
  samples take one value only.
\<close>

theorem dark_horse_single_value:
  "fst (horse dark_env demo_state) = Inr \<lparr>shape = [1, 2], dtype = Bool, samples = [0, 0]\<rparr>
   \<and> card (set (samples \<lparr>shape = [1, 2], dtype = Bool, samples = [0, 0]\<rparr>)) = 1"
  unfolding horse_unfold demo_horse_path
  by (simp add: dark_env_def spec_env_def spec_decode_def spec_to_bool_def collapse_def)

subsection \<open>Success and repetition\<close>




subsection \<open>Grayscale loading\<close>

text \<open>
  C7: with the decode as the specification describes it, for a file present in the data
  directory \<open>load\<close> returns the decoded image without the flag and its channel-collapsed
  form with it. The two have the same element type, height and width; for a colour
  source the grayscale result has the shape without the trailing channel axis and one
  sample per pixel; for a source without a channel axis the two results are equal.
\<close>

theorem grey_load_drops_channel_axis:
  assumes "decode env = spec_decode stored mix"
    and "plugin_fault env ''pil'' = None"
    and "stored (path_join (data_dir s) f) = Inr img"
  shows "fst (load env f False s) = Inr img
   \<and> fst (load env f True s) = Inr (collapse mix img)
   \<and> dtype (collapse mix img) = dtype img
   \<and> height (collapse mix img) = height img
   \<and> width (collapse mix img) = width img
   \<and> (length (shape img) = 3 \<longrightarrow> shape (collapse mix img) = butlast (shape img))
   \<and> (length (shape img) \<noteq> 3 \<longrightarrow> collapse mix img = img)
   \<and> (\<forall>h w c. shape img = [h, w, c] \<longrightarrow> 0 < c \<longrightarrow> length (samples img) = h * w * c \<longrightarrow>
         length (samples (collapse mix img)) = h * w)"
proof -
  have a: "fst (load env f False s) = Inr img"
    using assms by (simp add: load_unfold spec_decode_def call_out_def)
  have b: "fst (load env f True s) = Inr (collapse mix img)"
    using assms by (simp add: load_unfold spec_decode_def call_out_def)
  show ?thesis using a b collapse_geometry [of mix img] collapse_samples [of img _ _ _ mix]
    by blast
qed

theorem grey_load_drops_channel_axis_witness:
  "fst (load spec_env ''horse.png'' False demo_state) = Inr demo_colour
   \<and> fst (load spec_env ''horse.png'' True demo_state) = Inr demo_grey
   \<and> shape demo_colour = [1, 2, 3] \<and> shape demo_grey = [1, 2]
   \<and> dtype demo_grey = dtype demo_colour"
proof -
  have d: "decode spec_env =
      spec_decode (\<lambda>path. if path = ''/data/horse.png'' then Inr demo_colour
                          else Inl (Exception FileNotFound path))
        (\<lambda>channels. sum_list channels / 3)"
    by (simp add: spec_env_def)
  have p: "plugin_fault spec_env ''pil'' = None" by (simp add: spec_env_def)
  have f: "(\<lambda>path. if path = ''/data/horse.png'' then Inr demo_colour
                    else Inl (Exception FileNotFound path))
             (path_join (data_dir demo_state) ''horse.png'') = Inr demo_colour"
    unfolding demo_horse_path by simp
  note t = grey_load_drops_channel_axis [OF d p f]
  have a: "fst (load spec_env ''horse.png'' False demo_state) = Inr demo_colour"
    using t [THEN conjunct1] .
  have b: "fst (load spec_env ''horse.png'' True demo_state) = Inr demo_grey"
    using t [THEN conjunct2, THEN conjunct1] collapse_demo by simp
  show ?thesis using a b by (simp add: demo_colour_def demo_grey_def)
qed

subsection \<open>Frame\<close>




end
